theory Spec2Isabelle
  imports Complex_Main "HOL-Library.AList"
begin

section \<open>Python values and strings\<close>

text \<open>
  The values that travel between the tool functions of
  \<^verbatim>\<open>sqlite_tool_mcp_server.py\<close>, the caller and the \<^verbatim>\<open>sqlite3\<close> module: the scalars
  SQLite stores (\<^verbatim>\<open>None\<close>, \<^verbatim>\<open>int\<close>, \<^verbatim>\<open>float\<close>, \<^verbatim>\<open>str\<close>, \<^verbatim>\<open>bytes\<close>), and the booleans,
  lists and dictionaries the functions build for their return values. A dictionary is
  an association list in insertion order, as Python iterates it.

  A string is the list of the bytes of the UTF-8 encoding of a Python \<^verbatim>\<open>str\<close> (a lone
  surrogate encoded like any other code point), so a character below 128 is an ASCII
  character and every other character is part of the encoding of a code point beyond
  ASCII. Equality, concatenation, \<^verbatim>\<open>join\<close>,
  \<^verbatim>\<open>startswith\<close> and the substring test \<^verbatim>\<open>in\<close> of Python are the same operations on
  the encodings. \<^verbatim>\<open>str.upper\<close>, \<^verbatim>\<open>str.lower\<close> and \<^verbatim>\<open>str.strip\<close> are not: they follow
  the Unicode tables of the interpreter (\<^verbatim>\<open>str.strip\<close> removes U+00A0 and U+0085,
  \<^verbatim>\<open>str.upper\<close> turns U+0131 into \<^verbatim>\<open>I\<close>). On a string that is all ASCII they are the
  functions \<open>ascii_upper\<close>, \<open>ascii_lower\<close> and \<open>ascii_strip\<close> below; on any other
  string they are what the interpreter's tables give, a parameter of the model (see
  \<open>py_upper\<close>, \<open>py_lower\<close> and \<open>py_strip\<close> further down).
\<close>

datatype pyval =
    VNone
  | VBool bool
  | VInt int
  | VReal real
  | VText string
  | VBlob "nat list"
  | VList "pyval list"
  | VDict "(string \<times> pyval) list"

type_synonym pydict = "(string \<times> pyval) list"

text \<open>Python's truth value of an object (\<^verbatim>\<open>bool(x)\<close>).\<close>

fun py_bool :: "pyval \<Rightarrow> bool" where
  "py_bool VNone = False"
| "py_bool (VBool b) = b"
| "py_bool (VInt i) = (i \<noteq> 0)"
| "py_bool (VReal r) = (r \<noteq> 0)"
| "py_bool (VText s) = (s \<noteq> [])"
| "py_bool (VBlob b) = (b \<noteq> [])"
| "py_bool (VList xs) = (xs \<noteq> [])"
| "py_bool (VDict d) = (d \<noteq> [])"

definition upper_char :: "char \<Rightarrow> char" where
  "upper_char c =
     (case map_of (zip ''abcdefghijklmnopqrstuvwxyz'' ''ABCDEFGHIJKLMNOPQRSTUVWXYZ'') c of
        Some u \<Rightarrow> u
      | None \<Rightarrow> c)"

definition lower_char :: "char \<Rightarrow> char" where
  "lower_char c =
     (case map_of (zip ''ABCDEFGHIJKLMNOPQRSTUVWXYZ'' ''abcdefghijklmnopqrstuvwxyz'') c of
        Some l \<Rightarrow> l
      | None \<Rightarrow> c)"

definition ascii_upper :: "string \<Rightarrow> string" where
  "ascii_upper s = map upper_char s"

definition ascii_lower :: "string \<Rightarrow> string" where
  "ascii_lower s = map lower_char s"

text \<open>The ASCII characters for which \<^verbatim>\<open>str.isspace\<close> holds: tab, line feed, vertical
  tab, form feed, carriage return, the four separators 0x1C to 0x1F, and space.\<close>

definition ascii_space :: "char \<Rightarrow> bool" where
  "ascii_space c =
     (c \<in> set [CHR 0x09, CHR 0x0A, CHR 0x0B, CHR 0x0C, CHR 0x0D,
                CHR 0x1C, CHR 0x1D, CHR 0x1E, CHR 0x1F, CHR 0x20])"

definition ascii_strip :: "string \<Rightarrow> string" where
  "ascii_strip s = rev (dropWhile ascii_space (rev (dropWhile ascii_space s)))"

text \<open>A string is all ASCII when no character has its top bit set.\<close>

definition is_ascii :: "string \<Rightarrow> bool" where
  "is_ascii s = list_all (\<lambda>c. \<not> digit7 c) s"

text \<open>\<^verbatim>\<open>s.startswith(p)\<close>.\<close>

definition startswith :: "string \<Rightarrow> string \<Rightarrow> bool" where
  "startswith s p = (take (length p) s = p)"

text \<open>\<^verbatim>\<open>p in s\<close> for strings: \<open>p\<close> occurs in \<open>s\<close> as a contiguous substring.\<close>

fun py_in :: "string \<Rightarrow> string \<Rightarrow> bool" where
  "py_in p [] = (p = [])"
| "py_in p (c # cs) = (startswith (c # cs) p \<or> py_in p cs)"

text \<open>\<^verbatim>\<open>sep.join(xs)\<close>.\<close>

fun py_join :: "string \<Rightarrow> string list \<Rightarrow> string" where
  "py_join sep [] = []"
| "py_join sep [x] = x"
| "py_join sep (x # y # ys) = x @ sep @ py_join sep (y # ys)"

text \<open>A name between single quotes, as the f-strings of \<^verbatim>\<open>add_column\<close> write it.\<close>

definition sq :: "string \<Rightarrow> string" where
  "sq s = CHR 0x27 # s @ [CHR 0x27]"

text \<open>
  \<^verbatim>\<open>dict(pairs)\<close>: the pairs are inserted from left to right; a key seen again keeps its
  first position and takes the new value.
\<close>

definition py_dict :: "(string \<times> pyval) list \<Rightarrow> pydict" where
  "py_dict ps = foldl (\<lambda>d (k, v). AList.update k v d) [] ps"

section \<open>Exceptions\<close>

text \<open>
  The exceptions the functions can meet, each with the text \<^verbatim>\<open>str(e)\<close> gives.
  \<open>OperationalError\<close> is \<^verbatim>\<open>sqlite3.OperationalError\<close>, which \<^verbatim>\<open>add_column\<close> handles on its
  own; \<open>TypeError\<close> and \<open>IndexError\<close> are raised by the Python code itself (iterating
  \<^verbatim>\<open>None\<close>, indexing a tuple out of range); \<open>OtherError\<close> is any other subclass of
  \<^verbatim>\<open>Exception\<close> (\<^verbatim>\<open>sqlite3.IntegrityError\<close>, \<^verbatim>\<open>sqlite3.DatabaseError\<close>, ...).
\<close>

datatype exn =
    OperationalError string
  | TypeError string
  | IndexError string
  | OtherError string

fun str_exn :: "exn \<Rightarrow> string" where
  "str_exn (OperationalError m) = m"
| "str_exn (TypeError m) = m"
| "str_exn (IndexError m) = m"
| "str_exn (OtherError m) = m"

text \<open>\<^verbatim>\<open>row[i]\<close> on a tuple, for an index that is not negative.\<close>

definition py_index :: "'a list \<Rightarrow> nat \<Rightarrow> exn + 'a" where
  "py_index xs i =
     (if i < length xs then Inr (xs ! i) else Inl (IndexError ''tuple index out of range''))"

section \<open>The store behind \<^verbatim>\<open>sqlite3\<close>\<close>

text \<open>
  The SQLite engine is not part of the program: it is a parameter. A \<open>driver\<close> gives,
  for a store state of type \<open>'w\<close>, what each call of the \<^verbatim>\<open>sqlite3\<close> module does: the
  exception it raises or the value it returns, and the store state it leaves.
  \<^item> \<open>connect path\<close> is \<^verbatim>\<open>sqlite3.connect(path)\<close>;
  \<^item> \<open>execute sql params\<close> is \<^verbatim>\<open>cursor.execute(sql, params)\<close>, returning the cursor's
    state after the statement;
  \<^item> \<open>commit\<close> is \<^verbatim>\<open>conn.commit()\<close>;
  \<^item> \<open>close\<close> is \<^verbatim>\<open>conn.close()\<close>, which does not raise when called from the thread
    that opened the connection;
  \<^item> \<open>py_format\<close> is what an f-string writes for a value that is not a \<^verbatim>\<open>str\<close>;
  \<^item> \<open>unicode_upper\<close>, \<open>unicode_lower\<close> and \<open>unicode_strip\<close> are \<^verbatim>\<open>str.upper\<close>,
    \<^verbatim>\<open>str.lower\<close> and \<^verbatim>\<open>str.strip\<close> on strings that are not all ASCII (the
    interpreter's Unicode tables);
  \<^item> \<open>allowed_types_iter\<close> is the order in which the interpreter iterates the set
    literal \<^verbatim>\<open>allowed_types\<close> of \<^verbatim>\<open>add_column\<close> (it depends on the hash seed of the
    process).
  \<^verbatim>\<open>conn.cursor()\<close> only allocates a cursor object and is not a call of its own here.

  A cursor after \<^verbatim>\<open>execute\<close>: the column names of \<^verbatim>\<open>cursor.description\<close> (the first
  component of each of its 7-tuples; \<^verbatim>\<open>None\<close> when the statement returns no rows), what
  \<^verbatim>\<open>fetchall()\<close> gives, \<^verbatim>\<open>rowcount\<close> and \<^verbatim>\<open>lastrowid\<close>.
\<close>

record cursor =
  description :: "string list option"
  fetchall :: "exn + pyval list list"
  rowcount :: int
  lastrowid :: pyval

record 'w driver =
  connect :: "string \<Rightarrow> 'w \<Rightarrow> (exn + unit) \<times> 'w"
  execute :: "string \<Rightarrow> pyval list \<Rightarrow> 'w \<Rightarrow> (exn + cursor) \<times> 'w"
  commit :: "'w \<Rightarrow> (exn + unit) \<times> 'w"
  close :: "'w \<Rightarrow> 'w"
  py_format :: "pyval \<Rightarrow> string"
  unicode_upper :: "string \<Rightarrow> string"
  unicode_lower :: "string \<Rightarrow> string"
  unicode_strip :: "string \<Rightarrow> string"
  allowed_types_iter :: "string list"

text \<open>\<^verbatim>\<open>s.upper()\<close>, \<^verbatim>\<open>s.lower()\<close> and \<^verbatim>\<open>s.strip()\<close>.\<close>

definition py_upper :: "'w driver \<Rightarrow> string \<Rightarrow> string" where
  "py_upper D s = (if is_ascii s then ascii_upper s else unicode_upper D s)"

definition py_lower :: "'w driver \<Rightarrow> string \<Rightarrow> string" where
  "py_lower D s = (if is_ascii s then ascii_lower s else unicode_lower D s)"

definition py_strip :: "'w driver \<Rightarrow> string \<Rightarrow> string" where
  "py_strip D s = (if is_ascii s then ascii_strip s else unicode_strip D s)"

text \<open>
  The state a tool function runs in: the store, and the calls made to the driver so far,
  oldest first. A function that returns its state unchanged has not touched the store.
\<close>

datatype call =
    Connect string
  | Execute string "pyval list"
  | Commit
  | Close

record 'w state =
  world :: 'w
  calls :: "call list"

definition db_connect :: "'w driver \<Rightarrow> string \<Rightarrow> 'w state \<Rightarrow> (exn + unit) \<times> 'w state" where
  "db_connect D path s =
     (case connect D path (world s) of
        (r, w) \<Rightarrow> (r, \<lparr>world = w, calls = calls s @ [Connect path]\<rparr>))"

definition db_execute ::
  "'w driver \<Rightarrow> string \<Rightarrow> pyval list \<Rightarrow> 'w state \<Rightarrow> (exn + cursor) \<times> 'w state" where
  "db_execute D sql params s =
     (case execute D sql params (world s) of
        (r, w) \<Rightarrow> (r, \<lparr>world = w, calls = calls s @ [Execute sql params]\<rparr>))"

definition db_commit :: "'w driver \<Rightarrow> 'w state \<Rightarrow> (exn + unit) \<times> 'w state" where
  "db_commit D s =
     (case commit D (world s) of
        (r, w) \<Rightarrow> (r, \<lparr>world = w, calls = calls s @ [Commit]\<rparr>))"

definition db_close :: "'w driver \<Rightarrow> 'w state \<Rightarrow> 'w state" where
  "db_close D s = \<lparr>world = close D (world s), calls = calls s @ [Close]\<rparr>"

section \<open>Result envelopes\<close>

text \<open>
  The shapes the functions return, named as the specification names them:
  \<^verbatim>\<open>[{"error": msg}]\<close>, \<^verbatim>\<open>[{"rows_affected": n}]\<close>, \<^verbatim>\<open>[{"inserted_id": id}]\<close> and
  \<^verbatim>\<open>[{"success": True, "message": msg}]\<close>. A \<^verbatim>\<open>Rows\<close> result is the list of row
  dictionaries itself.
\<close>

definition Failure :: "string \<Rightarrow> pyval list" where
  "Failure msg = [VDict [(''error'', VText msg)]]"

definition Affected :: "int \<Rightarrow> pyval list" where
  "Affected n = [VDict [(''rows_affected'', VInt n)]]"

definition InsertedId :: "pyval \<Rightarrow> pyval list" where
  "InsertedId i = [VDict [(''inserted_id'', i)]]"

definition Ack :: "string \<Rightarrow> pyval list" where
  "Ack msg = [VDict [(''success'', VBool True), (''message'', VText msg)]]"

section \<open>The connection skeleton\<close>

text \<open>
  Every tool function has the same frame around its work:
  \<^verbatim>\<open>
  try:
      conn = sqlite3.connect(db_path)
      cursor = conn.cursor()
      ...body...
  except Exception as e:
      return handler(e)
  finally:
      if 'conn' in locals():
          conn.close()
  \<close>
  The outcome is \<open>Inr v\<close> when the function returns \<open>v\<close> and \<open>Inl e\<close> when the exception
  \<open>e\<close> leaves the function. When \<^verbatim>\<open>connect\<close> raises, \<^verbatim>\<open>conn\<close> is not bound and nothing is
  closed; otherwise the connection is closed after the body or the handler has produced
  the return value.
\<close>

definition try_except_finally ::
  "'w driver \<Rightarrow> string \<Rightarrow> (exn \<Rightarrow> pyval list) \<Rightarrow>
   ('w state \<Rightarrow> (exn + pyval list) \<times> 'w state) \<Rightarrow> 'w state \<Rightarrow> (exn + pyval list) \<times> 'w state" where
  "try_except_finally D db_path handler body s =
     (case db_connect D db_path s of
        (Inl e, s1) \<Rightarrow> (Inr (handler e), s1)
      | (Inr _, s1) \<Rightarrow>
          (case body s1 of
             (Inl e, s2) \<Rightarrow> (Inr (handler e), db_close D s2)
           | (Inr v, s2) \<Rightarrow> (Inr v, db_close D s2)))"

text \<open>The handler of all functions but \<^verbatim>\<open>list_tables\<close> and \<^verbatim>\<open>add_column\<close>:
  \<^verbatim>\<open>return [{"error": str(e)}]\<close>.\<close>

definition error_handler :: "exn \<Rightarrow> pyval list" where
  "error_handler e = Failure (str_exn e)"

section \<open>\<^verbatim>\<open>execute_sql_query\<close>\<close>

definition is_select :: "'w driver \<Rightarrow> string \<Rightarrow> bool" where
  "is_select D query = startswith (py_upper D (py_strip D query)) ''SELECT''"

definition execute_sql_query_body ::
  "'w driver \<Rightarrow> string \<Rightarrow> 'w state \<Rightarrow> (exn + pyval list) \<times> 'w state" where
  "execute_sql_query_body D query s1 =
     (case db_execute D query [] s1 of
        (Inl e, s2) \<Rightarrow> (Inl e, s2)
      | (Inr cur, s2) \<Rightarrow>
          if is_select D query then
            (case description cur of
               None \<Rightarrow> (Inl (TypeError '''NoneType' object is not iterable''), s2)
             | Some column_names \<Rightarrow>
                 (case fetchall cur of
                    Inl e \<Rightarrow> (Inl e, s2)
                  | Inr rows \<Rightarrow>
                      (Inr (map (\<lambda>row. VDict (py_dict (zip column_names row))) rows), s2)))
          else
            (case db_commit D s2 of
               (Inl e, s3) \<Rightarrow> (Inl e, s3)
             | (Inr _, s3) \<Rightarrow> (Inr (Affected (rowcount cur)), s3)))"

definition execute_sql_query ::
  "'w driver \<Rightarrow> string \<Rightarrow> string \<Rightarrow> 'w state \<Rightarrow> (exn + pyval list) \<times> 'w state" where
  "execute_sql_query D query db_path s =
     try_except_finally D db_path error_handler (execute_sql_query_body D query) s"

section \<open>\<^verbatim>\<open>get_database_schema\<close> and \<^verbatim>\<open>list_tables\<close>\<close>

definition master_query :: string where
  "master_query =
     ''SELECT name FROM sqlite_master WHERE type='table' AND name NOT LIKE 'sqlite_%';''"

text \<open>What the f-string \<^verbatim>\<open>f"...{table_name}..."\<close> writes for a value: a \<^verbatim>\<open>str\<close> as it is.\<close>

definition fmt :: "'w driver \<Rightarrow> pyval \<Rightarrow> string" where
  "fmt D v = (case v of VText t \<Rightarrow> t | _ \<Rightarrow> py_format D v)"

text \<open>The dictionary built for one row \<open>col\<close> of \<^verbatim>\<open>PRAGMA table_info\<close>; the five index
  reads happen in the order of the dictionary display.\<close>

definition column_info :: "pyval list \<Rightarrow> exn + pyval" where
  "column_info col =
     (case py_index col 1 of Inl e \<Rightarrow> Inl e | Inr c1 \<Rightarrow>
     (case py_index col 2 of Inl e \<Rightarrow> Inl e | Inr c2 \<Rightarrow>
     (case py_index col 3 of Inl e \<Rightarrow> Inl e | Inr c3 \<Rightarrow>
     (case py_index col 4 of Inl e \<Rightarrow> Inl e | Inr c4 \<Rightarrow>
     (case py_index col 5 of Inl e \<Rightarrow> Inl e | Inr c5 \<Rightarrow>
        Inr (VDict [(''name'', c1), (''type'', c2), (''notnull'', VBool (py_bool c3)),
                    (''default'', c4), (''primary_key'', VBool (py_bool c5))]))))))"

text \<open>The loop \<^verbatim>\<open>for col in columns\<close>, appending to \<^verbatim>\<open>table_info["columns"]\<close>.\<close>

fun column_infos :: "pyval list list \<Rightarrow> pyval list \<Rightarrow> exn + pyval list" where
  "column_infos [] acc = Inr acc"
| "column_infos (col # columns) acc =
     (case column_info col of
        Inl e \<Rightarrow> Inl e
      | Inr d \<Rightarrow> column_infos columns (acc @ [d]))"

text \<open>The loop \<^verbatim>\<open>for table in tables\<close>, appending to \<^verbatim>\<open>schema_info\<close>.\<close>

fun schema_loop ::
  "'w driver \<Rightarrow> pyval list list \<Rightarrow> pyval list \<Rightarrow> 'w state \<Rightarrow> (exn + pyval list) \<times> 'w state" where
  "schema_loop D [] schema_info s = (Inr schema_info, s)"
| "schema_loop D (table # tables) schema_info s =
     (case py_index table 0 of
        Inl e \<Rightarrow> (Inl e, s)
      | Inr table_name \<Rightarrow>
          (case db_execute D (''PRAGMA table_info('' @ fmt D table_name @ '');'') [] s of
             (Inl e, s1) \<Rightarrow> (Inl e, s1)
           | (Inr cur, s1) \<Rightarrow>
               (case fetchall cur of
                  Inl e \<Rightarrow> (Inl e, s1)
                | Inr columns \<Rightarrow>
                    (case column_infos columns [] of
                       Inl e \<Rightarrow> (Inl e, s1)
                     | Inr cols \<Rightarrow>
                         schema_loop D tables
                           (schema_info @ [VDict [(''table'', table_name), (''columns'', VList cols)]])
                           s1))))"

definition get_database_schema_body ::
  "'w driver \<Rightarrow> 'w state \<Rightarrow> (exn + pyval list) \<times> 'w state" where
  "get_database_schema_body D s1 =
     (case db_execute D master_query [] s1 of
        (Inl e, s2) \<Rightarrow> (Inl e, s2)
      | (Inr cur, s2) \<Rightarrow>
          (case fetchall cur of
             Inl e \<Rightarrow> (Inl e, s2)
           | Inr tables \<Rightarrow> schema_loop D tables [] s2))"

definition get_database_schema ::
  "'w driver \<Rightarrow> string \<Rightarrow> 'w state \<Rightarrow> (exn + pyval list) \<times> 'w state" where
  "get_database_schema D db_path s =
     try_except_finally D db_path error_handler (get_database_schema_body D) s"

text \<open>The comprehension \<^verbatim>\<open>[row[0] for row in cursor.fetchall()]\<close>.\<close>

fun first_columns :: "pyval list list \<Rightarrow> exn + pyval list" where
  "first_columns [] = Inr []"
| "first_columns (row # rows) =
     (case py_index row 0 of
        Inl e \<Rightarrow> Inl e
      | Inr v \<Rightarrow> (case first_columns rows of Inl e \<Rightarrow> Inl e | Inr vs \<Rightarrow> Inr (v # vs)))"

definition list_tables_body :: "'w driver \<Rightarrow> 'w state \<Rightarrow> (exn + pyval list) \<times> 'w state" where
  "list_tables_body D s1 =
     (case db_execute D master_query [] s1 of
        (Inl e, s2) \<Rightarrow> (Inl e, s2)
      | (Inr cur, s2) \<Rightarrow>
          (case fetchall cur of
             Inl e \<Rightarrow> (Inl e, s2)
           | Inr rows \<Rightarrow> (first_columns rows, s2)))"

text \<open>\<^verbatim>\<open>list_tables\<close> returns a list of strings; its handler returns
  \<^verbatim>\<open>[f"error: {str(e)}"]\<close>.\<close>

definition list_tables_handler :: "exn \<Rightarrow> pyval list" where
  "list_tables_handler e = [VText (''error: '' @ str_exn e)]"

definition list_tables ::
  "'w driver \<Rightarrow> string \<Rightarrow> 'w state \<Rightarrow> (exn + pyval list) \<times> 'w state" where
  "list_tables D db_path s =
     try_except_finally D db_path list_tables_handler (list_tables_body D) s"

section \<open>\<^verbatim>\<open>insert_row\<close>, \<^verbatim>\<open>update_rows\<close>, \<^verbatim>\<open>delete_rows\<close>\<close>

text \<open>
  The SQL texts are built from the table name and the keys of the dictionaries
  (\<^verbatim>\<open>data.keys()\<close>, \<^verbatim>\<open>where.keys()\<close>, in iteration order); the values go to the
  parameter list.
\<close>

definition insert_sql :: "string \<Rightarrow> string list \<Rightarrow> string" where
  "insert_sql table columns =
     (let placeholders = py_join '', '' (map (\<lambda>_. ''?'') columns)
      in ''INSERT INTO '' @ table @ '' ('' @ py_join '', '' columns @ '') VALUES (''
           @ placeholders @ '')'')"

definition equals_clauses :: "string list \<Rightarrow> string list" where
  "equals_clauses cols = map (\<lambda>col. col @ '' = ?'') cols"

definition update_sql :: "string \<Rightarrow> string list \<Rightarrow> string list \<Rightarrow> string" where
  "update_sql table data_keys where_keys =
     (let set_clause = py_join '', '' (equals_clauses data_keys);
          where_clause = py_join '' AND '' (equals_clauses where_keys)
      in ''UPDATE '' @ table @ '' SET '' @ set_clause @ '' WHERE '' @ where_clause)"

definition delete_sql :: "string \<Rightarrow> string list \<Rightarrow> string" where
  "delete_sql table where_keys =
     (let where_clause = py_join '' AND '' (equals_clauses where_keys)
      in ''DELETE FROM '' @ table @ '' WHERE '' @ where_clause)"

definition insert_row_body ::
  "'w driver \<Rightarrow> string \<Rightarrow> pyval list \<Rightarrow> 'w state \<Rightarrow> (exn + pyval list) \<times> 'w state" where
  "insert_row_body D sql params s1 =
     (case db_execute D sql params s1 of
        (Inl e, s2) \<Rightarrow> (Inl e, s2)
      | (Inr cur, s2) \<Rightarrow>
          (case db_commit D s2 of
             (Inl e, s3) \<Rightarrow> (Inl e, s3)
           | (Inr _, s3) \<Rightarrow> (Inr (InsertedId (lastrowid cur)), s3)))"

definition insert_row ::
  "'w driver \<Rightarrow> string \<Rightarrow> pydict \<Rightarrow> string \<Rightarrow> 'w state \<Rightarrow> (exn + pyval list) \<times> 'w state" where
  "insert_row D table data db_path s =
     (if data = [] then (Inr (Failure ''No data provided''), s)
      else
        let columns = map fst data;
            sql = insert_sql table columns
        in try_except_finally D db_path error_handler
             (insert_row_body D sql (map snd data)) s)"

text \<open>The body shared by \<^verbatim>\<open>update_rows\<close> and \<^verbatim>\<open>delete_rows\<close>: execute, commit,
  \<^verbatim>\<open>return [{"rows_affected": cursor.rowcount}]\<close>.\<close>

definition write_body ::
  "'w driver \<Rightarrow> string \<Rightarrow> pyval list \<Rightarrow> 'w state \<Rightarrow> (exn + pyval list) \<times> 'w state" where
  "write_body D sql params s1 =
     (case db_execute D sql params s1 of
        (Inl e, s2) \<Rightarrow> (Inl e, s2)
      | (Inr cur, s2) \<Rightarrow>
          (case db_commit D s2 of
             (Inl e, s3) \<Rightarrow> (Inl e, s3)
           | (Inr _, s3) \<Rightarrow> (Inr (Affected (rowcount cur)), s3)))"

definition update_rows ::
  "'w driver \<Rightarrow> string \<Rightarrow> pydict \<Rightarrow> pydict \<Rightarrow> string \<Rightarrow> 'w state \<Rightarrow>
   (exn + pyval list) \<times> 'w state" where
  "update_rows D table data where db_path s =
     (if data = [] \<or> where = [] then
        (Inr (Failure ''Both 'data' and 'where' must be provided''), s)
      else
        let sql = update_sql table (map fst data) (map fst where);
            params = map snd data @ map snd where
        in try_except_finally D db_path error_handler (write_body D sql params) s)"

definition delete_rows ::
  "'w driver \<Rightarrow> string \<Rightarrow> pydict \<Rightarrow> string \<Rightarrow> 'w state \<Rightarrow> (exn + pyval list) \<times> 'w state" where
  "delete_rows D table where db_path s =
     (if where = [] then
        (Inr (Failure '''where' condition required to avoid accidental deletion''), s)
      else
        let sql = delete_sql table (map fst where);
            params = map snd where
        in try_except_finally D db_path error_handler (write_body D sql params) s)"

section \<open>\<^verbatim>\<open>add_column\<close>\<close>

definition allowed_types :: "string list" where
  "allowed_types = [''TEXT'', ''INTEGER'', ''REAL'', ''NUMERIC'', ''BLOB'', ''DATE'', ''DATETIME'']"

definition add_column_sql :: "string \<Rightarrow> string \<Rightarrow> string \<Rightarrow> string" where
  "add_column_sql table column_name data_type =
     ''ALTER TABLE '' @ table @ '' ADD COLUMN '' @ column_name @ '' '' @ data_type"

definition add_column_body ::
  "'w driver \<Rightarrow> string \<Rightarrow> string \<Rightarrow> string \<Rightarrow> 'w state \<Rightarrow> (exn + pyval list) \<times> 'w state" where
  "add_column_body D table column_name data_type s1 =
     (case db_execute D (add_column_sql table column_name data_type) [] s1 of
        (Inl e, s2) \<Rightarrow> (Inl e, s2)
      | (Inr cur, s2) \<Rightarrow>
          (case db_commit D s2 of
             (Inl e, s3) \<Rightarrow> (Inl e, s3)
           | (Inr _, s3) \<Rightarrow>
               (Inr (Ack (''Column '' @ sq column_name @ '' ('' @ data_type
                            @ '') added to table '' @ sq table)), s3)))"

text \<open>The two \<^verbatim>\<open>except\<close> clauses of \<^verbatim>\<open>add_column\<close>: \<^verbatim>\<open>sqlite3.OperationalError\<close> first,
  told apart by its message, then any other exception.\<close>

definition add_column_handler ::
  "'w driver \<Rightarrow> string \<Rightarrow> string \<Rightarrow> exn \<Rightarrow> pyval list" where
  "add_column_handler D table column_name e =
     (case e of
        OperationalError m \<Rightarrow>
          if py_in ''duplicate column name'' (py_lower D m) then
            Failure (''Column '' @ sq column_name @ '' already exists in table '' @ sq table)
          else if py_in ''no such table'' (py_lower D m) then
            Failure (''Table '' @ sq table @ '' does not exist'')
          else Failure (''SQLite error: '' @ m)
      | _ \<Rightarrow> Failure (''Unexpected error: '' @ str_exn e))"

definition add_column ::
  "'w driver \<Rightarrow> string \<Rightarrow> string \<Rightarrow> string \<Rightarrow> string \<Rightarrow> 'w state \<Rightarrow>
   (exn + pyval list) \<times> 'w state" where
  "add_column D table column_name data_type db_path s =
     (if py_strip D table = [] then (Inr (Failure ''Table name cannot be empty''), s)
      else if py_strip D column_name = [] then (Inr (Failure ''Column name cannot be empty''), s)
      else if py_upper D data_type \<notin> set allowed_types then
        (Inr (Failure (''Data type must be one of: '' @ py_join '', '' (allowed_types_iter D))), s)
      else
        try_except_finally D db_path (add_column_handler D table column_name)
          (add_column_body D table column_name data_type) s)"

section \<open>Notions used to state the properties\<close>

text \<open>The SQL texts among the calls made to the driver, in order.\<close>

fun sql_text :: "call \<Rightarrow> string list" where
  "sql_text (Execute sql params) = [sql]"
| "sql_text _ = []"

definition sql_texts :: "call list \<Rightarrow> string list" where
  "sql_texts cs = concat (map sql_text cs)"

text \<open>The elements of a list in the order of their first occurrence.\<close>

fun first_seen :: "'a list \<Rightarrow> 'a list" where
  "first_seen [] = []"
| "first_seen (x # xs) = x # removeAll x (first_seen xs)"

text \<open>
  The exception met inside the \<^verbatim>\<open>try\<close> block of the connection skeleton, if any: the
  one \<^verbatim>\<open>connect\<close> raises, or else the one the body raises.
\<close>

definition raised ::
  "'w driver \<Rightarrow> string \<Rightarrow> ('w state \<Rightarrow> (exn + pyval list) \<times> 'w state) \<Rightarrow> 'w state \<Rightarrow>
   exn option" where
  "raised D db_path body s =
     (case db_connect D db_path s of
        (Inl e, s1) \<Rightarrow> Some e
      | (Inr _, s1) \<Rightarrow> (case body s1 of (Inl e, s2) \<Rightarrow> Some e | (Inr v, s2) \<Rightarrow> None))"

text \<open>
  The error result \<^verbatim>\<open>[{"error": msg}]\<close>, recognised by its shape: a list of one
  dictionary whose one key is \<^verbatim>\<open>"error"\<close>, bound to a string.
\<close>

fun is_failure :: "pyval list \<Rightarrow> bool" where
  "is_failure [VDict [(k, VText msg)]] = (k = ''error'')"
| "is_failure r = False"

text \<open>Two strings beyond ASCII: the no-break space U+00A0, and \<^verbatim>\<open>integer\<close> written
  with the dotless i U+0131 for its first letter.\<close>

definition no_break_space :: string where
  "no_break_space = [CHR 0xC2, CHR 0xA0]"

definition dotless_integer :: string where
  "dotless_integer = [CHR 0xC4, CHR 0xB1] @ ''nteger''"

section \<open>A scripted driver\<close>

text \<open>
  A driver for running the functions on concrete inputs. Its store is the list of
  statements committed so far and the statements executed since the last commit; its
  answers are scripted: \<open>conn\<close> is what \<^verbatim>\<open>connect\<close> answers and \<open>answer\<close> what
  \<^verbatim>\<open>execute\<close> answers to every statement. A statement that raises leaves nothing
  pending; closing drops what is pending. It stands in for the interpreter on ASCII text
  only: a string beyond ASCII is left as it is by its case and strip functions, and the
  runs below are on ASCII text.
\<close>

record script_store =
  committed :: "string list"
  pending :: "string list"

definition scripted :: "(exn + unit) \<Rightarrow> (exn + cursor) \<Rightarrow> script_store driver" where
  "scripted conn answer =
     \<lparr>connect = (\<lambda>path w. (conn, w)),
      execute = (\<lambda>sql params w.
         (case answer of
            Inl e \<Rightarrow> (Inl e, w)
          | Inr cur \<Rightarrow> (Inr cur, w\<lparr>pending := pending w @ [sql]\<rparr>))),
      commit = (\<lambda>w. (Inr (), \<lparr>committed = committed w @ pending w, pending = []\<rparr>)),
      close = (\<lambda>w. w\<lparr>pending := []\<rparr>),
      py_format = (\<lambda>v. ''?''),
      unicode_upper = (\<lambda>s. s),
      unicode_lower = (\<lambda>s. s),
      unicode_strip = (\<lambda>s. s),
      allowed_types_iter = allowed_types\<rparr>"

definition empty_store :: "script_store state" where
  "empty_store = \<lparr>world = \<lparr>committed = [], pending = []\<rparr>, calls = []\<rparr>"

text \<open>The cursor after a statement that changed one row and returns none.\<close>

definition one_row_written :: cursor where
  "one_row_written = \<lparr>description = None, fetchall = Inr [], rowcount = 1, lastrowid = VInt 1\<rparr>"

text \<open>The cursor after a query over two columns that found two rows.\<close>

definition two_people :: cursor where
  "two_people =
     \<lparr>description = Some [''id'', ''name''],
      fetchall = Inr [[VInt 1, VText ''Alice''], [VInt 2, VText ''Bob'']],
      rowcount = - 1, lastrowid = VNone\<rparr>"

text \<open>The cursor after a query whose two result columns carry the same name.\<close>

definition same_name_twice :: cursor where
  "same_name_twice =
     \<lparr>description = Some [''id'', ''id''],
      fetchall = Inr [[VInt 1, VInt 7]],
      rowcount = - 1, lastrowid = VNone\<rparr>"

text \<open>The cursor after a query over one column that found nothing.\<close>

definition nothing_found :: cursor where
  "nothing_found =
     \<lparr>description = Some [''name''], fetchall = Inr [], rowcount = - 1, lastrowid = VNone\<rparr>"

definition accepting :: "script_store driver" where
  "accepting = scripted (Inr ()) (Inr one_row_written)"

definition rejecting :: "script_store driver" where
  "rejecting = scripted (Inr ()) (Inl (OperationalError ''incomplete input''))"

definition unopenable :: "script_store driver" where
  "unopenable = scripted (Inl (OperationalError ''unable to open database file'')) (Inr one_row_written)"

definition duplicate_column :: "script_store driver" where
  "duplicate_column = scripted (Inr ()) (Inl (OperationalError ''duplicate column name: name''))"

definition answering :: "cursor \<Rightarrow> script_store driver" where
  "answering cur = scripted (Inr ()) (Inr cur)"

text \<open>The cursor after a query over two columns that found one row.\<close>

definition alice_found :: cursor where
  "alice_found =
     \<lparr>description = Some [''id'', ''name''],
      fetchall = Inr [[VInt 1, VText ''Alice'']],
      rowcount = - 1, lastrowid = VNone\<rparr>"

text \<open>A driver that answers an \<^verbatim>\<open>INSERT\<close> with \<open>one_row_written\<close> and any other
  statement with \<open>alice_found\<close>.\<close>

definition people_db :: "script_store driver" where
  "people_db =
     (scripted (Inr ()) (Inr alice_found))
       \<lparr>execute := (\<lambda>sql params w.
          (Inr (if startswith sql ''INSERT'' then one_row_written else alice_found),
           w\<lparr>pending := pending w @ [sql]\<rparr>))\<rparr>"

section \<open>Auxiliary facts\<close>

subsection \<open>Driver calls\<close>

lemma db_connect_eq:
  "connect D path (world s) = (r, w) \<Longrightarrow>
   db_connect D path s = (r, \<lparr>world = w, calls = calls s @ [Connect path]\<rparr>)"
  by (simp add: db_connect_def)

lemma db_execute_eq:
  "execute D sql params (world s) = (r, w) \<Longrightarrow>
   db_execute D sql params s = (r, \<lparr>world = w, calls = calls s @ [Execute sql params]\<rparr>)"
  by (simp add: db_execute_def)

lemma db_commit_eq:
  "commit D (world s) = (r, w) \<Longrightarrow>
   db_commit D s = (r, \<lparr>world = w, calls = calls s @ [Commit]\<rparr>)"
  by (simp add: db_commit_def)

lemmas scripted_simps =
  scripted_def empty_store_def accepting_def rejecting_def unopenable_def duplicate_column_def
  answering_def one_row_written_def two_people_def same_name_twice_def nothing_found_def
  alice_found_def people_db_def

lemmas run_simps =
  try_except_finally_def db_connect_def db_execute_def db_commit_def db_close_def
  error_handler_def Failure_def Affected_def InsertedId_def Ack_def

lemmas string_simps =
  is_select_def startswith_def py_upper_def py_lower_def py_strip_def is_ascii_def
  ascii_upper_def ascii_lower_def ascii_strip_def upper_char_def lower_char_def
  ascii_space_def sq_def allowed_types_def

lemma py_strip_empty: "py_strip D [] = []"
  by (simp add: py_strip_def is_ascii_def ascii_strip_def)

subsection \<open>Dictionaries built from pairs\<close>

lemma map_of_foldl_update:
  "map_of (foldl (\<lambda>d (k, v). AList.update k v d) d0 ps) = map_of d0 ++ map_of (rev ps)"
proof (induction ps arbitrary: d0)
  case Nil
  show ?case by simp
next
  case (Cons p ps)
  obtain k v where p: "p = (k, v)" by (cases p)
  have "map_of (foldl (\<lambda>d (k, v). AList.update k v d) d0 (p # ps))
        = map_of (AList.update k v d0) ++ map_of (rev ps)"
    using Cons.IH [of "AList.update k v d0"] by (simp add: p)
  also have "\<dots> = map_of d0 ++ map_of (rev (p # ps))"
    by (simp add: p update_conv' map_add_upd_left fun_eq_iff map_add_def split: option.splits)
  finally show ?case .
qed

lemma map_of_py_dict: "map_of (py_dict ps) = map_of (rev ps)"
  by (simp add: py_dict_def map_of_foldl_update)

lemma keys_foldl_update:
  "map fst (foldl (\<lambda>d (k, v). AList.update k v d) d0 ps)
   = map fst d0 @ filter (\<lambda>k. k \<notin> set (map fst d0)) (first_seen (map fst ps))"
proof (induction ps arbitrary: d0)
  case Nil
  show ?case by simp
next
  case (Cons p ps)
  obtain k v where p: "p = (k, v)" by (cases p)
  show ?case
  proof (cases "k \<in> fst ` set d0")
    case True
    then have keys: "map fst (AList.update k v d0) = map fst d0"
      by (simp add: update_keys)
    have "filter (\<lambda>x. x \<notin> fst ` set d0) (removeAll k xs) = filter (\<lambda>x. x \<notin> fst ` set d0) xs" for xs
      using True by (induction xs) auto
    then show ?thesis
      using Cons.IH [of "AList.update k v d0"] True by (simp add: p keys)
  next
    case False
    then have keys: "map fst (AList.update k v d0) = map fst d0 @ [k]"
      by (simp add: update_keys)
    have "filter (\<lambda>x. x \<noteq> k \<and> x \<notin> fst ` set d0) xs
          = filter (\<lambda>x. x \<notin> fst ` set d0) (removeAll k xs)" for xs
      by (induction xs) auto
    then show ?thesis
      using Cons.IH [of "AList.update k v d0"] False by (simp add: p keys)
  qed
qed

lemma keys_py_dict: "map fst (py_dict ps) = first_seen (map fst ps)"
  by (simp add: py_dict_def keys_foldl_update)

text \<open>In a dictionary built from pairs, a key holds the value of its last pair.\<close>

lemma map_of_rev_last_wins:
  "j < length ps \<Longrightarrow> (\<forall>k. j < k \<and> k < length ps \<longrightarrow> fst (ps ! k) \<noteq> fst (ps ! j)) \<Longrightarrow>
   map_of (rev ps) (fst (ps ! j)) = Some (snd (ps ! j))"
proof (induction ps rule: rev_induct)
  case Nil
  then show ?case by simp
next
  case (snoc p ps)
  show ?case
  proof (cases "j = length ps")
    case True
    then show ?thesis by simp
  next
    case False
    with snoc.prems have j: "j < length ps" by simp
    have last: "fst p \<noteq> fst (ps ! j)"
      using snoc.prems(2) [rule_format, of "length ps"] j by (simp add: nth_append)
    have "\<forall>k. j < k \<and> k < length ps \<longrightarrow> fst (ps ! k) \<noteq> fst (ps ! j)"
    proof (intro allI impI)
      fix k assume k: "j < k \<and> k < length ps"
      then show "fst (ps ! k) \<noteq> fst (ps ! j)"
        using snoc.prems(2) [rule_format, of k] j by (simp add: nth_append)
    qed
    with snoc.IH j have "map_of (rev ps) (fst (ps ! j)) = Some (snd (ps ! j))" by blast
    with last j show ?thesis by (simp add: nth_append)
  qed
qed

lemma py_dict_zip_lookup:
  assumes "j < min (length names) (length row)"
    and "\<forall>k. j < k \<and> k < min (length names) (length row) \<longrightarrow> names ! k \<noteq> names ! j"
  shows "map_of (py_dict (zip names row)) (names ! j) = Some (row ! j)"
  using map_of_rev_last_wins [of j "zip names row"] assms
  by (simp add: map_of_py_dict)

lemma py_dict_zip_keys:
  "map fst (py_dict (zip names row)) = first_seen (take (length row) names)"
  by (simp add: keys_py_dict map_fst_zip_take min_def)

subsection \<open>Runs of \<^verbatim>\<open>execute_sql_query\<close>\<close>

lemma execute_sql_query_select:
  assumes "connect D db_path (world s) = (Inr (), w1)"
    and "execute D query [] w1 = (Inr cur, w2)"
    and "is_select D query"
    and "description cur = Some names"
    and "fetchall cur = Inr rows"
  shows "execute_sql_query D query db_path s =
           (Inr (map (\<lambda>row. VDict (py_dict (zip names row))) rows),
            \<lparr>world = close D w2,
             calls = calls s @ [Connect db_path, Execute query [], Close]\<rparr>)"
  using assms
  by (simp add: execute_sql_query_def try_except_finally_def execute_sql_query_body_def
      db_connect_eq db_execute_eq db_close_def)

lemma execute_sql_query_write:
  assumes "connect D db_path (world s) = (Inr (), w1)"
    and "execute D query [] w1 = (Inr cur, w2)"
    and "\<not> is_select D query"
    and "commit D w2 = (Inr (), w3)"
  shows "execute_sql_query D query db_path s =
           (Inr (Affected (rowcount cur)),
            \<lparr>world = close D w3,
             calls = calls s @ [Connect db_path, Execute query [], Commit, Close]\<rparr>)"
  using assms
  by (simp add: execute_sql_query_def try_except_finally_def execute_sql_query_body_def
      db_connect_eq db_execute_eq db_commit_eq db_close_def)

section \<open>Conditions are required (C3)\<close>

text \<open>
  C3. For every driver, table, record, path and state, \<^verbatim>\<open>update_rows\<close> with an empty
  \<^verbatim>\<open>where\<close>, \<^verbatim>\<open>update_rows\<close> with an empty \<^verbatim>\<open>data\<close> and \<^verbatim>\<open>delete_rows\<close> with an empty
  \<^verbatim>\<open>where\<close> return the error list of the validation and the state they were given: the
  store is the same and no call has been made to the driver, not even \<^verbatim>\<open>connect\<close>.
\<close>

theorem empty_conditions_never_touch_store:
  "update_rows D table data [] db_path s =
     (Inr (Failure ''Both 'data' and 'where' must be provided''), s)
   \<and> update_rows D table [] where db_path s =
     (Inr (Failure ''Both 'data' and 'where' must be provided''), s)
   \<and> delete_rows D table [] db_path s =
     (Inr (Failure '''where' condition required to avoid accidental deletion''), s)"
  by (simp add: update_rows_def delete_rows_def)

theorem empty_conditions_never_touch_store_witness:
  "update_rows accepting ''t'' [(''name'', VText ''Bob'')] [] ''db'' empty_store =
     (Inr (Failure ''Both 'data' and 'where' must be provided''), empty_store)
   \<and> delete_rows accepting ''t'' [] ''db'' empty_store =
     (Inr (Failure '''where' condition required to avoid accidental deletion''), empty_store)
   \<and> calls empty_store = []"
  using empty_conditions_never_touch_store
    [of accepting "''t''" "[(''name'', VText ''Bob'')]" "''db''" empty_store]
  by (simp add: empty_store_def)

section \<open>The validation of \<^verbatim>\<open>add_column\<close> (C5)\<close>

text \<open>
  C5. When the table name is empty, or the column name is empty, or the upper-cased
  type is not one of TEXT, INTEGER, REAL, NUMERIC, BLOB, DATE, DATETIME, \<^verbatim>\<open>add_column\<close>
  returns an error list and the state it was given (no call to the driver). When neither
  name is blank and the upper-cased type is in the list, whatever the case of its
  letters, the validation is passed: the next call made is \<^verbatim>\<open>connect\<close> on the given
  path. Blank and upper-cased are what \<^verbatim>\<open>str.strip\<close> and \<^verbatim>\<open>str.upper\<close> make of the
  string, as in the source: on ASCII text, the removal of ASCII whitespace and the
  mapping of \<^verbatim>\<open>a\<close> to \<^verbatim>\<open>z\<close> onto \<^verbatim>\<open>A\<close> to \<^verbatim>\<open>Z\<close>; on other text, what the
  interpreter's tables give.
\<close>

theorem add_column_validation:
  "(table = [] \<or> column_name = [] \<or> py_upper D data_type \<notin> set allowed_types \<longrightarrow>
      (\<exists>msg. add_column D table column_name data_type db_path s = (Inr (Failure msg), s)))
   \<and> (py_strip D table \<noteq> [] \<and> py_strip D column_name \<noteq> []
        \<and> py_upper D data_type \<in> set allowed_types \<longrightarrow>
      (\<exists>rest. calls (snd (add_column D table column_name data_type db_path s))
                = calls s @ Connect db_path # rest))
   \<and> set allowed_types
        = {''TEXT'', ''INTEGER'', ''REAL'', ''NUMERIC'', ''BLOB'', ''DATE'', ''DATETIME''}"
proof (intro conjI impI)
  assume "table = [] \<or> column_name = [] \<or> py_upper D data_type \<notin> set allowed_types"
  then show "\<exists>msg. add_column D table column_name data_type db_path s = (Inr (Failure msg), s)"
    by (auto simp: add_column_def py_strip_empty)
next
  assume "py_strip D table \<noteq> [] \<and> py_strip D column_name \<noteq> []
        \<and> py_upper D data_type \<in> set allowed_types"
  then show "\<exists>rest. calls (snd (add_column D table column_name data_type db_path s))
                = calls s @ Connect db_path # rest"
    by (auto simp: add_column_def try_except_finally_def db_connect_def add_column_body_def
        db_execute_def db_commit_def db_close_def split: prod.splits sum.splits)
next
  show "set allowed_types
        = {''TEXT'', ''INTEGER'', ''REAL'', ''NUMERIC'', ''BLOB'', ''DATE'', ''DATETIME''}"
    by (simp add: allowed_types_def)
qed

theorem add_column_validation_witness:
  "add_column accepting ''t'' ''age'' ''VARCHAR'' ''db'' empty_store
     = (Inr (Failure ''Data type must be one of: TEXT, INTEGER, REAL, NUMERIC, BLOB, DATE, DATETIME''),
        empty_store)
   \<and> add_column accepting [] ''age'' ''INTEGER'' ''db'' empty_store
     = (Inr (Failure ''Table name cannot be empty''), empty_store)
   \<and> calls (snd (add_column accepting ''t'' ''age'' ''Integer'' ''db'' empty_store))
     = [Connect ''db'', Execute ''ALTER TABLE t ADD COLUMN age Integer'' [], Commit, Close]"
proof -
  have a: "py_upper accepting ''VARCHAR'' \<notin> set allowed_types"
    by (simp add: string_simps)
  have b: "py_strip accepting ''t'' \<noteq> [] \<and> py_strip accepting ''age'' \<noteq> []
           \<and> py_upper accepting ''Integer'' \<in> set allowed_types"
    by (simp add: string_simps)
  from a add_column_validation [where table = "''t''" and column_name = "''age''"
      and data_type = "''VARCHAR''" and D = accepting and db_path = "''db''" and s = empty_store]
  obtain msg where m: "add_column accepting ''t'' ''age'' ''VARCHAR'' ''db'' empty_store
     = (Inr (Failure msg), empty_store)"
    by blast
  from b add_column_validation [where table = "''t''" and column_name = "''age''"
      and data_type = "''Integer''" and D = accepting and db_path = "''db''" and s = empty_store]
  obtain rest where r: "calls (snd (add_column accepting ''t'' ''age'' ''Integer'' ''db'' empty_store))
                = calls empty_store @ Connect ''db'' # rest"
    by blast
  show ?thesis
    using m r
    by (simp add: add_column_def add_column_body_def add_column_sql_def run_simps scripted_simps
        string_simps)
qed

section \<open>Classification by the leading keyword (C6)\<close>

text \<open>
  C6. Let the connection open and the statement execute, leaving the cursor \<open>cur\<close>. If
  the stripped, upper-cased text of the statement starts with SELECT (and the cursor has
  a description and its rows can be fetched), \<^verbatim>\<open>execute_sql_query\<close> returns the fetched
  rows as dictionaries and makes no commit. If it does not start with SELECT and the
  commit succeeds, it returns \<^verbatim>\<open>[{"rows_affected": cursor.rowcount}]\<close> after exactly one
  commit. Nothing but the leading keyword decides between the two.
\<close>

theorem execute_sql_query_classifies:
  assumes "connect D db_path (world s) = (Inr (), w1)"
    and "execute D query [] w1 = (Inr cur, w2)"
  shows "is_select D query = startswith (py_upper D (py_strip D query)) ''SELECT''
       \<and> (is_select D query \<and> description cur = Some names \<and> fetchall cur = Inr rows \<longrightarrow>
            execute_sql_query D query db_path s =
              (Inr (map (\<lambda>row. VDict (py_dict (zip names row))) rows),
               \<lparr>world = close D w2,
                calls = calls s @ [Connect db_path, Execute query [], Close]\<rparr>))
       \<and> (\<not> is_select D query \<and> commit D w2 = (Inr (), w3) \<longrightarrow>
            execute_sql_query D query db_path s =
              (Inr (Affected (rowcount cur)),
               \<lparr>world = close D w3,
                calls = calls s @ [Connect db_path, Execute query [], Commit, Close]\<rparr>))"
  using assms execute_sql_query_select [of D db_path s w1 query cur w2 names rows]
    execute_sql_query_write [of D db_path s w1 query cur w2 w3]
  by (simp add: is_select_def)

theorem execute_sql_query_classifies_witness:
  "execute_sql_query (answering two_people) ''  select * From people'' ''db'' empty_store =
     (Inr [VDict [(''id'', VInt 1), (''name'', VText ''Alice'')],
           VDict [(''id'', VInt 2), (''name'', VText ''Bob'')]],
      \<lparr>world = \<lparr>committed = [], pending = []\<rparr>,
       calls = [Connect ''db'', Execute ''  select * From people'' [], Close]\<rparr>)
   \<and> execute_sql_query (answering two_people)
        ''WITH p AS (SELECT * FROM people) SELECT * FROM p'' ''db'' empty_store =
     (Inr (Affected (- 1)),
      \<lparr>world = \<lparr>committed = [''WITH p AS (SELECT * FROM people) SELECT * FROM p''], pending = []\<rparr>,
       calls = [Connect ''db'',
                Execute ''WITH p AS (SELECT * FROM people) SELECT * FROM p'' [], Commit, Close]\<rparr>)"
proof -
  let ?w = "\<lparr>committed = [], pending = []\<rparr>"
  let ?q1 = "''  select * From people''"
  let ?q2 = "''WITH p AS (SELECT * FROM people) SELECT * FROM p''"
  have c: "connect (answering two_people) ''db'' (world empty_store) = (Inr (), ?w)"
    by (simp add: scripted_simps)
  have e1: "execute (answering two_people) ?q1 [] ?w = (Inr two_people, ?w\<lparr>pending := [?q1]\<rparr>)"
    by (simp add: scripted_simps)
  have e2: "execute (answering two_people) ?q2 [] ?w = (Inr two_people, ?w\<lparr>pending := [?q2]\<rparr>)"
    by (simp add: scripted_simps)
  have s1: "is_select (answering two_people) ?q1"
    and s2: "\<not> is_select (answering two_people) ?q2"
    by (simp_all add: string_simps)
  have d: "description two_people = Some [''id'', ''name'']"
    and f: "fetchall two_people = Inr [[VInt 1, VText ''Alice''], [VInt 2, VText ''Bob'']]"
    by (simp_all add: two_people_def)
  have k: "commit (answering two_people) (?w\<lparr>pending := [?q2]\<rparr>)
             = (Inr (), \<lparr>committed = [?q2], pending = []\<rparr>)"
    by (simp add: scripted_simps)
  from execute_sql_query_classifies [OF c e1, of "[''id'', ''name'']"
      "[[VInt 1, VText ''Alice''], [VInt 2, VText ''Bob'']]"] s1 d f
  have r1: "execute_sql_query (answering two_people) ?q1 ''db'' empty_store =
      (Inr (map (\<lambda>row. VDict (py_dict (zip [''id'', ''name''] row)))
             [[VInt 1, VText ''Alice''], [VInt 2, VText ''Bob'']]),
       \<lparr>world = close (answering two_people) (?w\<lparr>pending := [?q1]\<rparr>),
        calls = calls empty_store @ [Connect ''db'', Execute ?q1 [], Close]\<rparr>)"
    by blast
  from execute_sql_query_classifies [OF c e2, of _ _ "\<lparr>committed = [?q2], pending = []\<rparr>"] s2 k
  have r2: "execute_sql_query (answering two_people) ?q2 ''db'' empty_store =
      (Inr (Affected (rowcount two_people)),
       \<lparr>world = close (answering two_people) \<lparr>committed = [?q2], pending = []\<rparr>,
        calls = calls empty_store @ [Connect ''db'', Execute ?q2 [], Commit, Close]\<rparr>)"
    by blast
  show ?thesis
    unfolding r1 r2 by (simp add: scripted_simps py_dict_def)
qed

section \<open>Rows paired with column names (C9)\<close>

text \<open>
  C9. For a statement classified as a read that executes, with column names \<open>names\<close> in
  the cursor's description and fetched rows \<open>rows\<close>, \<^verbatim>\<open>execute_sql_query\<close> returns one
  dictionary per fetched row, in order. The keys of the dictionary of a row are the
  column names in the order in which they are first seen. Every column whose name does
  not come again further right has its name mapped to the row's value in that column;
  so when a name occurs in several columns, the dictionary holds for it the value of
  the rightmost of them.
\<close>

theorem select_rows_paired_with_columns:
  assumes "connect D db_path (world s) = (Inr (), w1)"
    and "execute D query [] w1 = (Inr cur, w2)"
    and "is_select D query"
    and "description cur = Some names"
    and "fetchall cur = Inr rows"
  shows "\<exists>records. fst (execute_sql_query D query db_path s) = Inr records
      \<and> length records = length rows
      \<and> (\<forall>i < length rows. \<exists>d. records ! i = VDict d
            \<and> map fst d = first_seen (take (length (rows ! i)) names)
            \<and> (\<forall>j < min (length names) (length (rows ! i)).
                 (\<forall>k. j < k \<and> k < min (length names) (length (rows ! i))
                        \<longrightarrow> names ! k \<noteq> names ! j)
                 \<longrightarrow> map_of d (names ! j) = Some (rows ! i ! j)))"
proof -
  let ?records = "map (\<lambda>row. VDict (py_dict (zip names row))) rows"
  have "fst (execute_sql_query D query db_path s) = Inr ?records"
    using execute_sql_query_select [OF assms] by simp
  moreover have "length ?records = length rows"
    by simp
  moreover have "\<forall>i < length rows. \<exists>d. ?records ! i = VDict d
            \<and> map fst d = first_seen (take (length (rows ! i)) names)
            \<and> (\<forall>j < min (length names) (length (rows ! i)).
                 (\<forall>k. j < k \<and> k < min (length names) (length (rows ! i))
                        \<longrightarrow> names ! k \<noteq> names ! j)
                 \<longrightarrow> map_of d (names ! j) = Some (rows ! i ! j))"
  proof (intro allI impI)
    fix i assume i: "i < length rows"
    let ?d = "py_dict (zip names (rows ! i))"
    have "?records ! i = VDict ?d"
      using i by simp
    moreover have "map fst ?d = first_seen (take (length (rows ! i)) names)"
      by (rule py_dict_zip_keys)
    moreover have "\<forall>j < min (length names) (length (rows ! i)).
                 (\<forall>k. j < k \<and> k < min (length names) (length (rows ! i))
                        \<longrightarrow> names ! k \<noteq> names ! j)
                 \<longrightarrow> map_of ?d (names ! j) = Some (rows ! i ! j)"
      using py_dict_zip_lookup [of _ names "rows ! i"] by blast
    ultimately show "\<exists>d. ?records ! i = VDict d
            \<and> map fst d = first_seen (take (length (rows ! i)) names)
            \<and> (\<forall>j < min (length names) (length (rows ! i)).
                 (\<forall>k. j < k \<and> k < min (length names) (length (rows ! i))
                        \<longrightarrow> names ! k \<noteq> names ! j)
                 \<longrightarrow> map_of d (names ! j) = Some (rows ! i ! j))"
      by blast
  qed
  ultimately show ?thesis by blast
qed

theorem select_rows_paired_with_columns_witness:
  "fst (execute_sql_query (answering two_people) ''SELECT id, name FROM people'' ''db'' empty_store)
     = Inr [VDict [(''id'', VInt 1), (''name'', VText ''Alice'')],
            VDict [(''id'', VInt 2), (''name'', VText ''Bob'')]]
   \<and> (\<exists>records. fst (execute_sql_query (answering two_people) ''SELECT id, name FROM people''
                       ''db'' empty_store) = Inr records
        \<and> length records = 2)
   \<and> fst (execute_sql_query (answering same_name_twice)
             ''SELECT a.id, b.id FROM a JOIN b'' ''db'' empty_store)
     = Inr [VDict [(''id'', VInt 7)]]"
proof -
  let ?w = "\<lparr>committed = [], pending = []\<rparr>"
  let ?q = "''SELECT id, name FROM people''"
  let ?rows = "[[VInt 1, VText ''Alice''], [VInt 2, VText ''Bob'']]"
  have c: "connect (answering two_people) ''db'' (world empty_store) = (Inr (), ?w)"
    by (simp add: scripted_simps)
  have e: "execute (answering two_people) ?q [] ?w = (Inr two_people, ?w\<lparr>pending := [?q]\<rparr>)"
    by (simp add: scripted_simps)
  have s: "is_select (answering two_people) ?q"
    by (simp add: string_simps)
  have d: "description two_people = Some [''id'', ''name'']"
    and f: "fetchall two_people = Inr ?rows"
    by (simp_all add: two_people_def)
  from select_rows_paired_with_columns [OF c e s d f]
  obtain records where
    "fst (execute_sql_query (answering two_people) ?q ''db'' empty_store) = Inr records"
    and "length records = length ?rows"
    by blast
  then have "\<exists>records. fst (execute_sql_query (answering two_people) ?q ''db'' empty_store)
               = Inr records \<and> length records = 2"
    by simp
  moreover have "fst (execute_sql_query (answering two_people) ?q ''db'' empty_store)
     = Inr [VDict [(''id'', VInt 1), (''name'', VText ''Alice'')],
            VDict [(''id'', VInt 2), (''name'', VText ''Bob'')]]"
    using s
    by (simp add: execute_sql_query_def execute_sql_query_body_def run_simps scripted_simps
        py_dict_def)
  moreover have "fst (execute_sql_query (answering same_name_twice)
             ''SELECT a.id, b.id FROM a JOIN b'' ''db'' empty_store)
     = Inr [VDict [(''id'', VInt 7)]]"
    by (simp add: execute_sql_query_def execute_sql_query_body_def run_simps scripted_simps
        py_dict_def string_simps)
  ultimately show ?thesis by blast
qed

section \<open>A duplicate column (C8)\<close>






section \<open>A path that names no file yet (C10)\<close>

text \<open>
  C10. No function looks at the path before handing it to \<^verbatim>\<open>sqlite3.connect\<close>. When the
  engine opens the path (creating an empty store for a path that names no file) and
  the catalog query finds no table, \<^verbatim>\<open>list_tables\<close> and \<^verbatim>\<open>get_database_schema\<close> both
  return the empty list, not an error list, after \<^verbatim>\<open>connect\<close>, the catalog query and
  \<^verbatim>\<open>close\<close>.
\<close>

theorem listing_a_new_store:
  assumes "connect D db_path (world s) = (Inr (), w1)"
    and "execute D master_query [] w1 = (Inr cur, w2)"
    and "fetchall cur = Inr []"
  shows "list_tables D db_path s =
           (Inr [], \<lparr>world = close D w2,
                     calls = calls s @ [Connect db_path, Execute master_query [], Close]\<rparr>)
       \<and> get_database_schema D db_path s =
           (Inr [], \<lparr>world = close D w2,
                     calls = calls s @ [Connect db_path, Execute master_query [], Close]\<rparr>)"
  using assms
  by (simp add: list_tables_def get_database_schema_def try_except_finally_def
      list_tables_body_def get_database_schema_body_def db_connect_eq db_execute_eq db_close_def)

theorem listing_a_new_store_witness:
  "fst (list_tables (answering nothing_found) ''new.db'' empty_store) = Inr []
   \<and> fst (get_database_schema (answering nothing_found) ''new.db'' empty_store) = Inr []
   \<and> calls (snd (list_tables (answering nothing_found) ''new.db'' empty_store))
       = [Connect ''new.db'', Execute master_query [], Close]"
proof -
  let ?w = "\<lparr>committed = [], pending = []\<rparr>"
  have c: "connect (answering nothing_found) ''new.db'' (world empty_store) = (Inr (), ?w)"
    by (simp add: scripted_simps)
  have e: "execute (answering nothing_found) master_query [] ?w
             = (Inr nothing_found, ?w\<lparr>pending := [master_query]\<rparr>)"
    by (simp add: scripted_simps)
  have f: "fetchall nothing_found = Inr []"
    by (simp add: nothing_found_def)
  show ?thesis
    using listing_a_new_store [OF c e f] by (simp add: empty_store_def)
qed

section \<open>More auxiliary facts\<close>

subsection \<open>The connection skeleton\<close>

lemma try_except_finally_returns:
  "\<exists>r. fst (try_except_finally D db_path handler body s) = Inr r"
  by (auto simp: try_except_finally_def split: prod.splits sum.splits)

lemma try_except_finally_raised:
  "raised D db_path body s = Some e \<Longrightarrow>
   fst (try_except_finally D db_path handler body s) = Inr (handler e)"
  by (auto simp: try_except_finally_def raised_def split: prod.splits sum.splits)

lemma raised_connect:
  "fst (connect D db_path (world s)) = Inl e \<Longrightarrow> raised D db_path body s = Some e"
  by (auto simp: raised_def db_connect_def split: prod.splits sum.splits)

lemma is_failure_iff: "is_failure r \<longleftrightarrow> (\<exists>msg. r = Failure msg)"
  by (induction r rule: is_failure.induct) (auto simp: Failure_def)

lemma add_column_handler_failure: "\<exists>msg. add_column_handler D table column_name e = Failure msg"
  by (cases e) (auto simp: add_column_handler_def)

subsection \<open>The statement a run hands to the engine\<close>

lemma calls_insert_run:
  "fst (connect D db_path (world s)) = Inr () \<Longrightarrow>
   \<exists>rest. calls (snd (try_except_finally D db_path handler (insert_row_body D sql params) s))
            = calls s @ Connect db_path # Execute sql params # rest"
  by (auto simp: try_except_finally_def insert_row_body_def db_connect_def db_execute_def
      db_commit_def db_close_def split: prod.splits sum.splits)

lemma calls_write_run:
  "fst (connect D db_path (world s)) = Inr () \<Longrightarrow>
   \<exists>rest. calls (snd (try_except_finally D db_path handler (write_body D sql params) s))
            = calls s @ Connect db_path # Execute sql params # rest"
  by (auto simp: try_except_finally_def write_body_def db_connect_def db_execute_def
      db_commit_def db_close_def split: prod.splits sum.splits)

lemma calls_add_column_run:
  "fst (connect D db_path (world s)) = Inr () \<Longrightarrow>
   \<exists>rest. calls (snd (try_except_finally D db_path handler
                         (add_column_body D table column_name data_type) s))
            = calls s @ Connect db_path
                # Execute (add_column_sql table column_name data_type) [] # rest"
  by (auto simp: try_except_finally_def add_column_body_def db_connect_def db_execute_def
      db_commit_def db_close_def split: prod.splits sum.splits)

lemma sql_texts_append: "sql_texts (xs @ ys) = sql_texts xs @ sql_texts ys"
  by (simp add: sql_texts_def)

lemma sql_texts_insert_run:
  "sql_texts (calls (snd (try_except_finally D db_path handler (insert_row_body D sql params) s)))
   = sql_texts (calls s) @ (case fst (connect D db_path (world s)) of Inl e \<Rightarrow> [] | Inr u \<Rightarrow> [sql])"
  by (auto simp: try_except_finally_def insert_row_body_def db_connect_def db_execute_def
      db_commit_def db_close_def sql_texts_def split: prod.splits sum.splits)

lemma sql_texts_write_run:
  "sql_texts (calls (snd (try_except_finally D db_path handler (write_body D sql params) s)))
   = sql_texts (calls s) @ (case fst (connect D db_path (world s)) of Inl e \<Rightarrow> [] | Inr u \<Rightarrow> [sql])"
  by (auto simp: try_except_finally_def write_body_def db_connect_def db_execute_def
      db_commit_def db_close_def sql_texts_def split: prod.splits sum.splits)

section \<open>Faults end as error results (C4)\<close>

text \<open>
  C4, as amended. For every driver, every input and every state, each of the seven
  functions returns (its outcome is never an exception that leaves the function).
  Whenever an exception is met inside its \<^verbatim>\<open>try\<close> block, be it raised by \<^verbatim>\<open>connect\<close>,
  \<^verbatim>\<open>execute\<close>, \<^verbatim>\<open>fetchall\<close>, \<^verbatim>\<open>commit\<close> or by the Python code of the block, the function
  returns the result of its handler. That result is the error result
  \<^verbatim>\<open>[{"error": str(e)}]\<close> for \<^verbatim>\<open>execute_sql_query\<close>, \<^verbatim>\<open>get_database_schema\<close>,
  \<^verbatim>\<open>insert_row\<close>, \<^verbatim>\<open>update_rows\<close> and \<^verbatim>\<open>delete_rows\<close>, and \<^verbatim>\<open>[{"error": msg}]\<close> with one
  of four messages for \<^verbatim>\<open>add_column\<close>. For \<^verbatim>\<open>list_tables\<close>, which returns a list of
  strings, it is the one-element list \<^verbatim>\<open>["error: " + str(e)]\<close>, which is not an error
  result of that shape. The checks made before the \<^verbatim>\<open>try\<close> block (empty \<^verbatim>\<open>data\<close>, empty
  \<^verbatim>\<open>where\<close>, blank names, type outside the whitelist) return \<^verbatim>\<open>[{"error": msg}]\<close>.
\<close>

theorem faults_become_error_results:
  "(\<exists>r. fst (execute_sql_query D query db_path s) = Inr r)
   \<and> (\<exists>r. fst (get_database_schema D db_path s) = Inr r)
   \<and> (\<exists>r. fst (list_tables D db_path s) = Inr r)
   \<and> (\<exists>r. fst (insert_row D table data db_path s) = Inr r)
   \<and> (\<exists>r. fst (update_rows D table data where db_path s) = Inr r)
   \<and> (\<exists>r. fst (delete_rows D table where db_path s) = Inr r)
   \<and> (\<exists>r. fst (add_column D table column_name data_type db_path s) = Inr r)
   \<and> (raised D db_path (execute_sql_query_body D query) s = Some e \<longrightarrow>
        fst (execute_sql_query D query db_path s) = Inr (Failure (str_exn e)))
   \<and> (raised D db_path (get_database_schema_body D) s = Some e \<longrightarrow>
        fst (get_database_schema D db_path s) = Inr (Failure (str_exn e)))
   \<and> (raised D db_path (list_tables_body D) s = Some e \<longrightarrow>
        fst (list_tables D db_path s) = Inr [VText (''error: '' @ str_exn e)]
        \<and> \<not> is_failure [VText (''error: '' @ str_exn e)])
   \<and> (data = [] \<longrightarrow>
        fst (insert_row D table data db_path s) = Inr (Failure ''No data provided''))
   \<and> (data \<noteq> [] \<and>
       raised D db_path
         (insert_row_body D (insert_sql table (map fst data)) (map snd data)) s = Some e \<longrightarrow>
        fst (insert_row D table data db_path s) = Inr (Failure (str_exn e)))
   \<and> (data = [] \<or> where = [] \<longrightarrow>
        fst (update_rows D table data where db_path s)
          = Inr (Failure ''Both 'data' and 'where' must be provided''))
   \<and> (data \<noteq> [] \<and> where \<noteq> [] \<and>
       raised D db_path
         (write_body D (update_sql table (map fst data) (map fst where))
            (map snd data @ map snd where)) s = Some e \<longrightarrow>
        fst (update_rows D table data where db_path s) = Inr (Failure (str_exn e)))
   \<and> (where = [] \<longrightarrow>
        fst (delete_rows D table where db_path s)
          = Inr (Failure '''where' condition required to avoid accidental deletion''))
   \<and> (where \<noteq> [] \<and>
       raised D db_path
         (write_body D (delete_sql table (map fst where)) (map snd where)) s = Some e \<longrightarrow>
        fst (delete_rows D table where db_path s) = Inr (Failure (str_exn e)))
   \<and> (py_strip D table = [] \<or> py_strip D column_name = []
        \<or> py_upper D data_type \<notin> set allowed_types \<longrightarrow>
        (\<exists>msg. fst (add_column D table column_name data_type db_path s) = Inr (Failure msg)))
   \<and> (py_strip D table \<noteq> [] \<and> py_strip D column_name \<noteq> []
        \<and> py_upper D data_type \<in> set allowed_types
        \<and> raised D db_path (add_column_body D table column_name data_type) s = Some e \<longrightarrow>
        fst (add_column D table column_name data_type db_path s)
          = Inr (add_column_handler D table column_name e)
        \<and> is_failure (add_column_handler D table column_name e))"
proof (intro conjI impI)
  show "\<exists>r. fst (execute_sql_query D query db_path s) = Inr r"
    by (simp add: execute_sql_query_def try_except_finally_returns)
  show "\<exists>r. fst (get_database_schema D db_path s) = Inr r"
    by (simp add: get_database_schema_def try_except_finally_returns)
  show "\<exists>r. fst (list_tables D db_path s) = Inr r"
    by (simp add: list_tables_def try_except_finally_returns)
  show "\<exists>r. fst (insert_row D table data db_path s) = Inr r"
    by (simp add: insert_row_def try_except_finally_returns)
  show "\<exists>r. fst (update_rows D table data where db_path s) = Inr r"
    by (simp add: update_rows_def try_except_finally_returns)
  show "\<exists>r. fst (delete_rows D table where db_path s) = Inr r"
    by (simp add: delete_rows_def try_except_finally_returns)
  show "\<exists>r. fst (add_column D table column_name data_type db_path s) = Inr r"
    by (simp add: add_column_def try_except_finally_returns)
next
  assume "raised D db_path (execute_sql_query_body D query) s = Some e"
  then show "fst (execute_sql_query D query db_path s) = Inr (Failure (str_exn e))"
    by (simp add: execute_sql_query_def try_except_finally_raised error_handler_def)
next
  assume "raised D db_path (get_database_schema_body D) s = Some e"
  then show "fst (get_database_schema D db_path s) = Inr (Failure (str_exn e))"
    by (simp add: get_database_schema_def try_except_finally_raised error_handler_def)
next
  assume "raised D db_path (list_tables_body D) s = Some e"
  then show "fst (list_tables D db_path s) = Inr [VText (''error: '' @ str_exn e)]"
    by (simp add: list_tables_def try_except_finally_raised list_tables_handler_def)
next
  show "\<not> is_failure [VText (''error: '' @ str_exn e)]"
    by simp
next
  assume "data = []"
  then show "fst (insert_row D table data db_path s) = Inr (Failure ''No data provided'')"
    by (simp add: insert_row_def)
next
  assume "data \<noteq> [] \<and>
       raised D db_path
         (insert_row_body D (insert_sql table (map fst data)) (map snd data)) s = Some e"
  then show "fst (insert_row D table data db_path s) = Inr (Failure (str_exn e))"
    by (simp add: insert_row_def try_except_finally_raised error_handler_def)
next
  assume "data = [] \<or> where = []"
  then show "fst (update_rows D table data where db_path s)
          = Inr (Failure ''Both 'data' and 'where' must be provided'')"
    by (auto simp: update_rows_def)
next
  assume "data \<noteq> [] \<and> where \<noteq> [] \<and>
       raised D db_path
         (write_body D (update_sql table (map fst data) (map fst where))
            (map snd data @ map snd where)) s = Some e"
  then show "fst (update_rows D table data where db_path s) = Inr (Failure (str_exn e))"
    by (simp add: update_rows_def try_except_finally_raised error_handler_def)
next
  assume "where = []"
  then show "fst (delete_rows D table where db_path s)
          = Inr (Failure '''where' condition required to avoid accidental deletion'')"
    by (simp add: delete_rows_def)
next
  assume "where \<noteq> [] \<and>
       raised D db_path
         (write_body D (delete_sql table (map fst where)) (map snd where)) s = Some e"
  then show "fst (delete_rows D table where db_path s) = Inr (Failure (str_exn e))"
    by (simp add: delete_rows_def try_except_finally_raised error_handler_def)
next
  assume "py_strip D table = [] \<or> py_strip D column_name = []
        \<or> py_upper D data_type \<notin> set allowed_types"
  then show "\<exists>msg. fst (add_column D table column_name data_type db_path s) = Inr (Failure msg)"
    by (auto simp: add_column_def)
next
  assume "py_strip D table \<noteq> [] \<and> py_strip D column_name \<noteq> []
        \<and> py_upper D data_type \<in> set allowed_types
        \<and> raised D db_path (add_column_body D table column_name data_type) s = Some e"
  then show "fst (add_column D table column_name data_type db_path s)
          = Inr (add_column_handler D table column_name e)"
    by (simp add: add_column_def try_except_finally_raised)
next
  show "is_failure (add_column_handler D table column_name e)"
    using add_column_handler_failure [of D table column_name e]
    by (simp add: is_failure_iff)
qed

theorem faults_become_error_results_witness:
  "fst (execute_sql_query unopenable ''SELECT 1'' ''/no/such/dir/x.db'' empty_store)
     = Inr (Failure ''unable to open database file'')
   \<and> fst (get_database_schema unopenable ''/no/such/dir/x.db'' empty_store)
     = Inr (Failure ''unable to open database file'')
   \<and> fst (list_tables unopenable ''/no/such/dir/x.db'' empty_store)
     = Inr [VText ''error: unable to open database file'']
   \<and> fst (insert_row rejecting ''t'' [(''name'', VText ''Alice'')] ''db'' empty_store)
     = Inr (Failure ''incomplete input'')
   \<and> fst (insert_row rejecting ''t'' [] ''db'' empty_store)
     = Inr (Failure ''No data provided'')"
proof -
  let ?p = "''/no/such/dir/x.db''"
  let ?e = "OperationalError ''unable to open database file''"
  let ?i = "OperationalError ''incomplete input''"
  let ?data = "[(''name'', VText ''Alice'')]"
  have c: "fst (connect unopenable ?p (world empty_store)) = Inl ?e"
    by (simp add: scripted_simps)
  have r: "raised rejecting ''db''
             (insert_row_body rejecting (insert_sql ''t'' (map fst ?data)) (map snd ?data))
             empty_store = Some ?i"
    by (simp add: raised_def insert_row_body_def db_connect_def db_execute_def scripted_simps)
  note t = faults_become_error_results
    [where D = unopenable and query = "''SELECT 1''" and db_path = ?p and s = empty_store
       and e = ?e]
  note u = faults_become_error_results
    [where D = rejecting and db_path = "''db''" and s = empty_store and table = "''t''"
       and data = ?data and e = ?i]
  note v = faults_become_error_results
    [where D = rejecting and db_path = "''db''" and s = empty_store and table = "''t''"
       and data = "[]"]
  have "fst (execute_sql_query unopenable ''SELECT 1'' ?p empty_store) = Inr (Failure (str_exn ?e))"
    using t raised_connect [OF c] by simp
  moreover have "fst (get_database_schema unopenable ?p empty_store) = Inr (Failure (str_exn ?e))"
    using t raised_connect [OF c] by simp
  moreover have "fst (list_tables unopenable ?p empty_store) = Inr [VText (''error: '' @ str_exn ?e)]"
    using t raised_connect [OF c] by simp
  moreover have "fst (insert_row rejecting ''t'' ?data ''db'' empty_store) = Inr (Failure (str_exn ?i))"
    using u r by simp
  moreover have "fst (insert_row rejecting ''t'' [] ''db'' empty_store) = Inr (Failure ''No data provided'')"
    using v by simp
  ultimately show ?thesis by simp
qed

text \<open>
  The claim as written has every operation turn a fault into the tagged error result.
  \<^verbatim>\<open>list_tables\<close> on a path that cannot be opened returns a list holding one string,
  the message behind the prefix "error: ", where its successful result is the list of
  table names.
\<close>

theorem list_tables_error_is_a_string:
  "fst (list_tables unopenable ''/no/such/dir/x.db'' empty_store)
     = Inr [VText ''error: unable to open database file'']
   \<and> \<not> is_failure [VText ''error: unable to open database file'']"
  by (simp add: list_tables_def list_tables_handler_def run_simps scripted_simps)

section \<open>Values never reach the SQL text (C2)\<close>

text \<open>
  C2, as amended. Two calls of \<^verbatim>\<open>insert_row\<close>, of \<^verbatim>\<open>update_rows\<close> or of \<^verbatim>\<open>delete_rows\<close>
  on the same table, path and state, whose dictionaries have the same keys in the same
  order, hand the same SQL texts to the engine, whatever the values are. When the
  connection opens, the one statement executed is the text built from the table name and
  the keys, with the values as its parameter list, in the order of the keys.
\<close>

theorem sql_text_independent_of_values:
  assumes "map fst data1 = map fst data2" and "map fst where1 = map fst where2"
  shows "sql_texts (calls (snd (insert_row D table data1 db_path s)))
           = sql_texts (calls (snd (insert_row D table data2 db_path s)))
       \<and> sql_texts (calls (snd (update_rows D table data1 where1 db_path s)))
           = sql_texts (calls (snd (update_rows D table data2 where2 db_path s)))
       \<and> sql_texts (calls (snd (delete_rows D table where1 db_path s)))
           = sql_texts (calls (snd (delete_rows D table where2 db_path s)))
       \<and> (data1 \<noteq> [] \<and> fst (connect D db_path (world s)) = Inr () \<longrightarrow>
            (\<exists>rest. calls (snd (insert_row D table data1 db_path s))
                     = calls s @ Connect db_path
                         # Execute (insert_sql table (map fst data1)) (map snd data1) # rest))
       \<and> (data1 \<noteq> [] \<and> where1 \<noteq> [] \<and> fst (connect D db_path (world s)) = Inr () \<longrightarrow>
            (\<exists>rest. calls (snd (update_rows D table data1 where1 db_path s))
                     = calls s @ Connect db_path
                         # Execute (update_sql table (map fst data1) (map fst where1))
                             (map snd data1 @ map snd where1) # rest))
       \<and> (where1 \<noteq> [] \<and> fst (connect D db_path (world s)) = Inr () \<longrightarrow>
            (\<exists>rest. calls (snd (delete_rows D table where1 db_path s))
                     = calls s @ Connect db_path
                         # Execute (delete_sql table (map fst where1)) (map snd where1) # rest))"
proof -
  have d: "data1 = [] \<longleftrightarrow> data2 = []"
    using assms(1) by (metis map_is_Nil_conv)
  have w: "where1 = [] \<longleftrightarrow> where2 = []"
    using assms(2) by (metis map_is_Nil_conv)
  have "sql_texts (calls (snd (insert_row D table data1 db_path s)))
           = sql_texts (calls (snd (insert_row D table data2 db_path s)))"
    using assms(1) d by (simp add: insert_row_def sql_texts_insert_run)
  moreover have "sql_texts (calls (snd (update_rows D table data1 where1 db_path s)))
           = sql_texts (calls (snd (update_rows D table data2 where2 db_path s)))"
    using assms d w by (simp add: update_rows_def sql_texts_write_run)
  moreover have "sql_texts (calls (snd (delete_rows D table where1 db_path s)))
           = sql_texts (calls (snd (delete_rows D table where2 db_path s)))"
    using assms(2) w by (simp add: delete_rows_def sql_texts_write_run)
  moreover have "data1 \<noteq> [] \<and> fst (connect D db_path (world s)) = Inr () \<longrightarrow>
            (\<exists>rest. calls (snd (insert_row D table data1 db_path s))
                     = calls s @ Connect db_path
                         # Execute (insert_sql table (map fst data1)) (map snd data1) # rest)"
    by (simp add: insert_row_def calls_insert_run)
  moreover have "data1 \<noteq> [] \<and> where1 \<noteq> [] \<and> fst (connect D db_path (world s)) = Inr () \<longrightarrow>
            (\<exists>rest. calls (snd (update_rows D table data1 where1 db_path s))
                     = calls s @ Connect db_path
                         # Execute (update_sql table (map fst data1) (map fst where1))
                             (map snd data1 @ map snd where1) # rest)"
    by (simp add: update_rows_def calls_write_run)
  moreover have "where1 \<noteq> [] \<and> fst (connect D db_path (world s)) = Inr () \<longrightarrow>
            (\<exists>rest. calls (snd (delete_rows D table where1 db_path s))
                     = calls s @ Connect db_path
                         # Execute (delete_sql table (map fst where1)) (map snd where1) # rest)"
    by (simp add: delete_rows_def calls_write_run)
  ultimately show ?thesis by blast
qed

theorem sql_text_independent_of_values_witness:
  "sql_texts (calls (snd (insert_row accepting ''t''
       [(''name'', VText ''Alice''), (''age'', VInt 30)] ''db'' empty_store)))
     = [''INSERT INTO t (name, age) VALUES (?, ?)'']
   \<and> sql_texts (calls (snd (insert_row accepting ''t''
       [(''name'', VText ''x'); DROP TABLE t; --''), (''age'', VNone)] ''db'' empty_store)))
     = [''INSERT INTO t (name, age) VALUES (?, ?)'']"
proof -
  let ?d1 = "[(''name'', VText ''Alice''), (''age'', VInt 30)]"
  let ?d2 = "[(''name'', VText ''x'); DROP TABLE t; --''), (''age'', VNone)]"
  have k: "map fst ?d1 = map fst ?d2" by simp
  have e: "map fst ([] :: pydict) = map fst ([] :: pydict)" by simp
  have same: "sql_texts (calls (snd (insert_row accepting ''t'' ?d1 ''db'' empty_store)))
              = sql_texts (calls (snd (insert_row accepting ''t'' ?d2 ''db'' empty_store)))"
    using sql_text_independent_of_values [OF k e] by blast
  have "sql_texts (calls (snd (insert_row accepting ''t'' ?d1 ''db'' empty_store)))
     = [''INSERT INTO t (name, age) VALUES (?, ?)'']"
    by (simp add: insert_row_def insert_row_body_def insert_sql_def sql_texts_def run_simps
        scripted_simps Let_def)
  with same show ?thesis by simp
qed

text \<open>
  The claim as written asks only for equal key sets. Two dictionaries with the keys
  \<^verbatim>\<open>a\<close> and \<^verbatim>\<open>b\<close>, filled in different orders, give different statements, since the
  columns are written in the iteration order of the dictionary.
\<close>

theorem key_order_changes_sql_text:
  "set (map fst [(''a'', VInt 1), (''b'', VInt 2)]) = set (map fst [(''b'', VInt 3), (''a'', VInt 4)])
   \<and> sql_texts (calls (snd (insert_row accepting ''t'' [(''a'', VInt 1), (''b'', VInt 2)]
                              ''db'' empty_store)))
       = [''INSERT INTO t (a, b) VALUES (?, ?)'']
   \<and> sql_texts (calls (snd (insert_row accepting ''t'' [(''b'', VInt 3), (''a'', VInt 4)]
                              ''db'' empty_store)))
       = [''INSERT INTO t (b, a) VALUES (?, ?)'']"
  by (auto simp: insert_row_def insert_row_body_def insert_sql_def sql_texts_def run_simps
      scripted_simps Let_def)

section \<open>Identifiers are not validated (C1)\<close>

text \<open>
  C1, as amended. \<^verbatim>\<open>insert_row\<close>, \<^verbatim>\<open>update_rows\<close> and \<^verbatim>\<open>delete_rows\<close> do not examine
  the table name or the keys: once the dictionaries are not empty and the connection
  opens, the statement built from the names as they are given is executed.
  \<^verbatim>\<open>add_column\<close> refuses, before any call to the driver, a table or column name that
  \<^verbatim>\<open>str.strip\<close> leaves empty; any other name (with a type that passes the whitelist
  test) goes into the statement as given, and the statement is executed.
\<close>

theorem identifiers_substituted_as_given:
  assumes "fst (connect D db_path (world s)) = Inr ()"
  shows "(data \<noteq> [] \<longrightarrow>
            (\<exists>rest. calls (snd (insert_row D table data db_path s))
                     = calls s @ Connect db_path
                         # Execute (insert_sql table (map fst data)) (map snd data) # rest))
       \<and> (data \<noteq> [] \<and> where \<noteq> [] \<longrightarrow>
            (\<exists>rest. calls (snd (update_rows D table data where db_path s))
                     = calls s @ Connect db_path
                         # Execute (update_sql table (map fst data) (map fst where))
                             (map snd data @ map snd where) # rest))
       \<and> (where \<noteq> [] \<longrightarrow>
            (\<exists>rest. calls (snd (delete_rows D table where db_path s))
                     = calls s @ Connect db_path
                         # Execute (delete_sql table (map fst where)) (map snd where) # rest))
       \<and> (py_strip D table \<noteq> [] \<and> py_strip D column_name \<noteq> []
            \<and> py_upper D data_type \<in> set allowed_types \<longrightarrow>
            (\<exists>rest. calls (snd (add_column D table column_name data_type db_path s))
                     = calls s @ Connect db_path
                         # Execute (add_column_sql table column_name data_type) [] # rest))
       \<and> (py_strip D table = [] \<or> py_strip D column_name = [] \<longrightarrow>
            (\<exists>msg. add_column D table column_name data_type db_path s = (Inr (Failure msg), s)))
       \<and> insert_sql table columns
           = ''INSERT INTO '' @ table @ '' ('' @ py_join '', '' columns @ '') VALUES (''
               @ py_join '', '' (map (\<lambda>c. ''?'') columns) @ '')''
       \<and> update_sql table columns conditions
           = ''UPDATE '' @ table @ '' SET '' @ py_join '', '' (map (\<lambda>c. c @ '' = ?'') columns)
               @ '' WHERE '' @ py_join '' AND '' (map (\<lambda>c. c @ '' = ?'') conditions)
       \<and> delete_sql table conditions
           = ''DELETE FROM '' @ table @ '' WHERE ''
               @ py_join '' AND '' (map (\<lambda>c. c @ '' = ?'') conditions)
       \<and> add_column_sql table column_name data_type
           = ''ALTER TABLE '' @ table @ '' ADD COLUMN '' @ column_name @ '' '' @ data_type"
proof (intro conjI impI)
  assume "data \<noteq> []"
  then show "\<exists>rest. calls (snd (insert_row D table data db_path s))
                     = calls s @ Connect db_path
                         # Execute (insert_sql table (map fst data)) (map snd data) # rest"
    using calls_insert_run [OF assms] by (simp add: insert_row_def)
next
  assume "data \<noteq> [] \<and> where \<noteq> []"
  then show "\<exists>rest. calls (snd (update_rows D table data where db_path s))
                     = calls s @ Connect db_path
                         # Execute (update_sql table (map fst data) (map fst where))
                             (map snd data @ map snd where) # rest"
    using calls_write_run [OF assms] by (simp add: update_rows_def)
next
  assume "where \<noteq> []"
  then show "\<exists>rest. calls (snd (delete_rows D table where db_path s))
                     = calls s @ Connect db_path
                         # Execute (delete_sql table (map fst where)) (map snd where) # rest"
    using calls_write_run [OF assms] by (simp add: delete_rows_def)
next
  assume "py_strip D table \<noteq> [] \<and> py_strip D column_name \<noteq> []
            \<and> py_upper D data_type \<in> set allowed_types"
  then show "\<exists>rest. calls (snd (add_column D table column_name data_type db_path s))
                     = calls s @ Connect db_path
                         # Execute (add_column_sql table column_name data_type) [] # rest"
    using calls_add_column_run [OF assms] by (simp add: add_column_def)
next
  assume "py_strip D table = [] \<or> py_strip D column_name = []"
  then show "\<exists>msg. add_column D table column_name data_type db_path s = (Inr (Failure msg), s)"
    by (auto simp: add_column_def)
next
  show "insert_sql table columns
           = ''INSERT INTO '' @ table @ '' ('' @ py_join '', '' columns @ '') VALUES (''
               @ py_join '', '' (map (\<lambda>c. ''?'') columns) @ '')''"
    by (simp add: insert_sql_def)
  show "update_sql table columns conditions
           = ''UPDATE '' @ table @ '' SET '' @ py_join '', '' (map (\<lambda>c. c @ '' = ?'') columns)
               @ '' WHERE '' @ py_join '' AND '' (map (\<lambda>c. c @ '' = ?'') conditions)"
    by (simp add: update_sql_def equals_clauses_def)
  show "delete_sql table conditions
           = ''DELETE FROM '' @ table @ '' WHERE ''
               @ py_join '' AND '' (map (\<lambda>c. c @ '' = ?'') conditions)"
    by (simp add: delete_sql_def equals_clauses_def)
  show "add_column_sql table column_name data_type
           = ''ALTER TABLE '' @ table @ '' ADD COLUMN '' @ column_name @ '' '' @ data_type"
    by (simp add: add_column_sql_def)
qed

theorem identifiers_substituted_as_given_witness:
  "calls (snd (delete_rows accepting ''t'' [(''1 = 1 OR id'', VInt 5)] ''db'' empty_store))
     = [Connect ''db'', Execute ''DELETE FROM t WHERE 1 = 1 OR id = ?'' [VInt 5], Commit, Close]
   \<and> add_column accepting ''  '' ''age'' ''INTEGER'' ''db'' empty_store
     = (Inr (Failure ''Table name cannot be empty''), empty_store)"
proof -
  let ?where = "[(''1 = 1 OR id'', VInt 5)]"
  have c: "fst (connect accepting ''db'' (world empty_store)) = Inr ()"
    by (simp add: scripted_simps)
  have b: "py_strip accepting ''  '' = []"
    by (simp add: string_simps)
  note t = identifiers_substituted_as_given
    [OF c, where data = "[]" and table = "''t''" and ?where = ?where
       and column_name = "''age''" and data_type = "''INTEGER''"]
  note u = identifiers_substituted_as_given
    [OF c, where data = "[]" and table = "''  ''" and ?where = ?where
       and column_name = "''age''" and data_type = "''INTEGER''"]
  from t obtain rest where
    "calls (snd (delete_rows accepting ''t'' ?where ''db'' empty_store))
       = calls empty_store @ Connect ''db''
           # Execute (delete_sql ''t'' (map fst ?where)) (map snd ?where) # rest"
    by blast
  moreover from u b obtain msg where
    "add_column accepting ''  '' ''age'' ''INTEGER'' ''db'' empty_store
       = (Inr (Failure msg), empty_store)"
    by blast
  ultimately show ?thesis
    by (simp add: delete_rows_def write_body_def delete_sql_def equals_clauses_def add_column_def
        run_simps scripted_simps Let_def string_simps)
qed

text \<open>
  The claim as written has every identifier validated before it reaches an SQL text. An
  empty table name is not refused by \<^verbatim>\<open>insert_row\<close>: the statement is built around it and
  executed, and the error returned is the engine's. A condition key that is not an
  identifier at all is written into the \<^verbatim>\<open>WHERE\<close> clause of \<^verbatim>\<open>delete_rows\<close>, and the
  statement is executed and committed.
\<close>

theorem invalid_identifier_reaches_engine:
  "insert_row rejecting '''' [(''a'', VInt 1)] ''db'' empty_store
     = (Inr (Failure ''incomplete input''),
        \<lparr>world = \<lparr>committed = [], pending = []\<rparr>,
         calls = [Connect ''db'', Execute ''INSERT INTO  (a) VALUES (?)'' [VInt 1], Close]\<rparr>)
   \<and> delete_rows accepting ''t'' [(''1 = 1 OR id'', VInt 5)] ''db'' empty_store
     = (Inr (Affected 1),
        \<lparr>world = \<lparr>committed = [''DELETE FROM t WHERE 1 = 1 OR id = ?''], pending = []\<rparr>,
         calls = [Connect ''db'', Execute ''DELETE FROM t WHERE 1 = 1 OR id = ?'' [VInt 5],
                  Commit, Close]\<rparr>)"
  by (simp add: insert_row_def insert_row_body_def insert_sql_def delete_rows_def write_body_def
      delete_sql_def equals_clauses_def run_simps scripted_simps Let_def)

section \<open>Insert, then select (C7)\<close>





section \<open>Text beyond ASCII\<close>

text \<open>
  Where the interpreter's tables matter. \<^verbatim>\<open>str.strip\<close> removes the no-break space, so
  a table name made of it is refused by \<^verbatim>\<open>add_column\<close> as empty. \<^verbatim>\<open>str.upper\<close> turns
  the dotless i into \<^verbatim>\<open>I\<close>, so the type written with it is taken for \<^verbatim>\<open>INTEGER\<close> by
  the whitelist test and goes into the statement as it was given.
\<close>

lemma no_break_space_is_blank:
  assumes "unicode_strip D no_break_space = []"
  shows "add_column D no_break_space column_name data_type db_path s
           = (Inr (Failure ''Table name cannot be empty''), s)"
  using assms by (simp add: add_column_def py_strip_def is_ascii_def no_break_space_def)

lemma dotless_integer_is_whitelisted:
  assumes "unicode_upper D dotless_integer = ''INTEGER''"
    and "py_strip D table \<noteq> []" and "py_strip D column_name \<noteq> []"
    and "fst (connect D db_path (world s)) = Inr ()"
  shows "\<exists>rest. calls (snd (add_column D table column_name dotless_integer db_path s))
           = calls s @ Connect db_path
               # Execute (''ALTER TABLE '' @ table @ '' ADD COLUMN '' @ column_name @ '' ''
                           @ dotless_integer) [] # rest"
proof -
  have "py_upper D dotless_integer \<in> set allowed_types"
    using assms(1) by (simp add: py_upper_def is_ascii_def dotless_integer_def allowed_types_def)
  then show ?thesis
    using assms(2,3) calls_add_column_run [OF assms(4)]
    by (simp add: add_column_def add_column_sql_def)
qed

end
